theory Spec2Isabelle
  imports Main
begin

section \<open>Values and exceptions\<close>

text \<open>
  The service is a set of request handlers (\<^verbatim>\<open>app/main.py\<close>) over one SQLite table
  (\<^verbatim>\<open>app/db.py\<close>), a triage client for an external chat-completion provider
  (\<^verbatim>\<open>app/ai.py\<close>) and the request schemas (\<^verbatim>\<open>app/models.py\<close>).

  A value decoded by \<^verbatim>\<open>json.loads\<close> is a \<open>json\<close>. An object is the list of the
  items of the Python dict (its keys are distinct). A float carries the text that
  SQLite stores for it in a TEXT column; floating-point arithmetic is not modelled.
\<close>

datatype json =
    JNull
  | JBool bool
  | JInt int
  | JFloat string
  | JStr string
  | JArr "json list"
  | JObj "(string \<times> json) list"

text \<open>
  Every \<^verbatim>\<open>raise\<close> of the handlers, of the libraries they call and of the request
  validation is a value of \<open>exn\<close>. All of them are subclasses of Python's
  \<^verbatim>\<open>Exception\<close>. \<open>ProviderError\<close> is any exception of the provider's client
  (network fault, rejected request, timeout). \<open>RequestValidationError\<close> is the
  framework's answer 422 to a request that does not fit the declared schema, and
  \<open>HTTPException\<close> carries the status code and the detail of the handlers' own answers.
\<close>

datatype exn =
    RuntimeError string
  | ProviderError string
  | IndexError
  | TypeError
  | JSONDecodeError
  | AttributeError
  | ProgrammingError
  | OverflowError
  | IntegrityError string
  | OperationalError string
  | HTTPException nat string
  | RequestValidationError

section \<open>The triage client (app/ai.py)\<close>

record message =
  role :: string
  content :: string

datatype response_format = Json_schema json | Json_object

record request =
  model :: string
  messages :: "message list"
  temperature :: string
  response_format :: response_format

text \<open>
  What \<^verbatim>\<open>analyze_ticket\<close> reads from outside the program: the environment variable
  \<^verbatim>\<open>OPENAI_API_KEY\<close>, the provider behind \<^verbatim>\<open>client.chat.completions.create\<close>
  (it raises, or answers with the contents of its choices, a content being absent when
  the model refuses), and \<^verbatim>\<open>json.loads\<close> of the standard library.
\<close>

record env =
  api_key :: "string option"
  chat_completions_create :: "request \<Rightarrow> exn + string option list"
  json_loads :: "string \<Rightarrow> exn + json"

definition schema :: json where
  "schema = JObj
     [(''name'', JStr ''ticket_analysis''),
      (''schema'', JObj
         [(''type'', JStr ''object''),
          (''additionalProperties'', JBool False),
          (''properties'', JObj
             [(''priority'', JObj [(''type'', JStr ''string''),
                 (''enum'', JArr [JStr ''low'', JStr ''medium'', JStr ''high''])]),
              (''category'', JObj [(''type'', JStr ''string''),
                 (''enum'', JArr [JStr ''billing'', JStr ''technical'', JStr ''account'',
                    JStr ''other''])]),
              (''summary'', JObj [(''type'', JStr ''string'')]),
              (''suggested_reply'', JObj [(''type'', JStr ''string'')])]),
          (''required'', JArr [JStr ''priority'', JStr ''category'', JStr ''summary'',
             JStr ''suggested_reply''])]),
      (''strict'', JBool True)]"

definition messages_of :: "string \<Rightarrow> string \<Rightarrow> message list" where
  "messages_of subject body =
     [\<lparr>role = ''system'',
       content = ''You are a helpful customer support assistant. Return structured results.''\<rparr>,
      \<lparr>role = ''user'',
       content = ''Ticket subject: '' @ subject @ [CHR 0x0A] @ ''Ticket body: '' @ body\<rparr>]"

definition reminder :: message where
  "reminder =
     \<lparr>role = ''user'',
      content = ''Return ONLY a valid JSON object with keys: priority, category, summary, suggested_reply.''\<rparr>"

definition strict_request :: "string \<Rightarrow> string \<Rightarrow> request" where
  "strict_request subject body =
     \<lparr>model = ''gpt-4.1-mini'', messages = messages_of subject body,
      temperature = ''0.2'', response_format = Json_schema schema\<rparr>"

definition fallback_request :: "string \<Rightarrow> string \<Rightarrow> request" where
  "fallback_request subject body =
     \<lparr>model = ''gpt-4.1-mini'', messages = messages_of subject body @ [reminder],
      temperature = ''0.2'', response_format = Json_object\<rparr>"

text \<open>
  The three statements shared by the \<^verbatim>\<open>try\<close> block and the \<^verbatim>\<open>except\<close> block:
  the request, \<^verbatim>\<open>resp.choices[0].message.content\<close> and \<^verbatim>\<open>json.loads(content)\<close>.
  \<^verbatim>\<open>json.loads(None)\<close> raises TypeError. \<open>sent\<close> is the list of the requests made
  so far; the call of the provider adds its request to it.
\<close>

definition completion_json ::
  "env \<Rightarrow> request list \<Rightarrow> request \<Rightarrow> request list \<times> (exn + json)" where
  "completion_json e sent req =
     (sent @ [req],
      case chat_completions_create e req of
        Inl x \<Rightarrow> Inl x
      | Inr choices \<Rightarrow>
          (case choices of
             [] \<Rightarrow> Inl IndexError
           | c # _ \<Rightarrow> (case c of None \<Rightarrow> Inl TypeError | Some s \<Rightarrow> json_loads e s)))"

definition missing_key_message :: string where
  "missing_key_message =
     ''OPENAI_API_KEY is missing. Ensure .env exists in project root and contains OPENAI_API_KEY=...''"

text \<open>
  \<^verbatim>\<open>analyze_ticket\<close> returns the requests it has sent, in order, with its result.
  \<^verbatim>\<open>not api_key\<close> holds for an unset variable and for the empty string.
\<close>

definition analyze_ticket :: "env \<Rightarrow> string \<Rightarrow> string \<Rightarrow> request list \<times> (exn + json)" where
  "analyze_ticket e subject body =
     (case api_key e of
        None \<Rightarrow> ([], Inl (RuntimeError missing_key_message))
      | Some k \<Rightarrow>
          if k = [] then ([], Inl (RuntimeError missing_key_message))
          else
            (let (sent, res) = completion_json e [] (strict_request subject body)
             in case res of
                  Inr d \<Rightarrow> (sent, Inr d)
                | Inl _ \<Rightarrow> completion_json e sent (fallback_request subject body)))"

section \<open>The ticket store (app/db.py)\<close>

text \<open>
  A row of the table \<^verbatim>\<open>tickets\<close>. The two timestamps are the readings of
  \<^verbatim>\<open>datetime('now')\<close>, a text of one-second resolution whose order as text is the
  order of time; they are modelled as the number of seconds. The store is the list of
  rows in rowid order with the counter that \<^verbatim>\<open>AUTOINCREMENT\<close> keeps in
  \<^verbatim>\<open>sqlite_sequence\<close>. Rowids are unbounded here, and faults of the storage medium are
  not modelled.
\<close>

record ticket =
  id_col :: int
  source :: string
  customer_name :: "string option"
  customer_email :: "string option"
  subject :: string
  body :: string
  status :: string
  priority :: "string option"
  category :: "string option"
  summary :: "string option"
  suggested_reply :: "string option"
  created_at :: nat
  updated_at :: nat

record db =
  rows :: "ticket list"
  sqlite_sequence :: int

definition empty_db :: db where
  "empty_db = \<lparr>rows = [], sqlite_sequence = 0\<rparr>"

text \<open>\<^verbatim>\<open>CREATE TABLE IF NOT EXISTS\<close>: an existing store is left as it is.\<close>

definition init_db :: "db option \<Rightarrow> db" where
  "init_db file = (case file of None \<Rightarrow> empty_db | Some d \<Rightarrow> d)"

text \<open>
  With \<^verbatim>\<open>AUTOINCREMENT\<close> the new rowid is one more than the largest rowid that the
  table has ever held.
\<close>

definition next_rowid :: "db \<Rightarrow> int" where
  "next_rowid d = max (sqlite_sequence d) (fold max (map id_col (rows d)) 0) + 1"

definition select_by_id :: "db \<Rightarrow> int \<Rightarrow> ticket option" where
  "select_by_id d i = find (\<lambda>r. id_col r = i) (rows d)"

section \<open>The request schemas (app/models.py)\<close>

record TicketCreate =
  tc_source :: string
  tc_customer_name :: "string option"
  tc_customer_email :: "string option"
  tc_subject :: string
  tc_body :: string

text \<open>
  An integer that the database driver can bind as a parameter: one of 64 bits. A larger
  Python integer raises OverflowError at \<^verbatim>\<open>execute\<close>.
\<close>

definition int64 :: "int \<Rightarrow> bool" where
  "int64 i = (- (2 ^ 63) \<le> i \<and> i < 2 ^ 63)"

section \<open>Creating and fetching a ticket (app/main.py)\<close>

text \<open>\<^verbatim>\<open>ai_data.get(key)\<close>: only a dict has the method.\<close>

definition dict_get :: "json \<Rightarrow> string \<Rightarrow> exn + json" where
  "dict_get d k =
     (case d of
        JObj kvs \<Rightarrow> Inr (case map_of kvs k of None \<Rightarrow> JNull | Some v \<Rightarrow> v)
      | _ \<Rightarrow> Inl AttributeError)"

fun nat_digits :: "nat \<Rightarrow> string" where
  "nat_digits n =
     (if n < 10 then [''0123456789'' ! n]
      else nat_digits (n div 10) @ [''0123456789'' ! (n mod 10)])"

definition int_text :: "int \<Rightarrow> string" where
  "int_text i = (if i < 0 then CHR ''-'' # nat_digits (nat (- i)) else nat_digits (nat i))"

text \<open>
  Binding a Python value to a parameter of a TEXT column. \<^verbatim>\<open>None\<close> is NULL, a
  \<^verbatim>\<open>str\<close> is stored as it is, a number is stored as its text (a \<^verbatim>\<open>bool\<close> is the
  integer 0 or 1), an integer outside 64 bits raises OverflowError, and a list or a dict
  is not a supported type.
\<close>

definition bind_text :: "json \<Rightarrow> exn + string option" where
  "bind_text v =
     (case v of
        JNull \<Rightarrow> Inr None
      | JStr s \<Rightarrow> Inr (Some s)
      | JBool b \<Rightarrow> Inr (Some (if b then ''1'' else ''0''))
      | JInt i \<Rightarrow>
          if - (2 ^ 63) \<le> i \<and> i < 2 ^ 63 then Inr (Some (int_text i)) else Inl OverflowError
      | JFloat t \<Rightarrow> Inr (Some t)
      | JArr _ \<Rightarrow> Inl ProgrammingError
      | JObj _ \<Rightarrow> Inl ProgrammingError)"

definition ai_param :: "json \<Rightarrow> string \<Rightarrow> exn + string option" where
  "ai_param ai_data k =
     (case dict_get ai_data k of Inl x \<Rightarrow> Inl x | Inr v \<Rightarrow> bind_text v)"

text \<open>
  The INSERT names nine columns; \<^verbatim>\<open>status\<close> and the two timestamps take their
  defaults, both timestamps from the same reading of the clock.
\<close>

definition new_row ::
  "nat \<Rightarrow> db \<Rightarrow> TicketCreate \<Rightarrow> string option \<Rightarrow> string option \<Rightarrow> string option \<Rightarrow>
   string option \<Rightarrow> ticket" where
  "new_row now d t p c s sr =
     \<lparr>id_col = next_rowid d, source = tc_source t, customer_name = tc_customer_name t,
      customer_email = tc_customer_email t, subject = tc_subject t, body = tc_body t,
      status = ''new'', priority = p, category = c, summary = s, suggested_reply = sr,
      created_at = now, updated_at = now\<rparr>"

text \<open>The store after the INSERT, with \<^verbatim>\<open>cursor.lastrowid\<close>.\<close>

definition insert_ticket ::
  "nat \<Rightarrow> db \<Rightarrow> TicketCreate \<Rightarrow> string option \<Rightarrow> string option \<Rightarrow> string option \<Rightarrow>
   string option \<Rightarrow> db \<times> int" where
  "insert_ticket now d t p c s sr =
     (d\<lparr>rows := rows d @ [new_row now d t p c s sr], sqlite_sequence := next_rowid d\<rparr>,
      next_rowid d)"

definition no_ai_data :: json where
  "no_ai_data = JObj [(''priority'', JNull), (''category'', JNull), (''summary'', JNull),
     (''suggested_reply'', JNull)]"

text \<open>
  \<^verbatim>\<open>create_ticket\<close>: \<open>now\<close> is the clock at the INSERT. An exception inside the
  \<^verbatim>\<open>with\<close> block rolls the transaction back, so the store comes back unchanged;
  \<^verbatim>\<open>dict(row)\<close> runs after the block has committed, and raises TypeError on
  \<^verbatim>\<open>None\<close>.
\<close>

definition create_ticket :: "env \<Rightarrow> nat \<Rightarrow> db \<Rightarrow> TicketCreate \<Rightarrow> db \<times> (exn + ticket)" where
  "create_ticket e now d t =
     (let ai_data = (case snd (analyze_ticket e (tc_subject t) (tc_body t)) of
                       Inr a \<Rightarrow> a
                     | Inl _ \<Rightarrow> no_ai_data)
      in case ai_param ai_data ''priority'' of Inl x \<Rightarrow> (d, Inl x) | Inr p \<Rightarrow>
         (case ai_param ai_data ''category'' of Inl x \<Rightarrow> (d, Inl x) | Inr c \<Rightarrow>
         (case ai_param ai_data ''summary'' of Inl x \<Rightarrow> (d, Inl x) | Inr s \<Rightarrow>
         (case ai_param ai_data ''suggested_reply'' of Inl x \<Rightarrow> (d, Inl x) | Inr sr \<Rightarrow>
            (let (d', ticket_id) = insert_ticket now d t p c s sr
             in case select_by_id d' ticket_id of
                  None \<Rightarrow> (d', Inl TypeError)
                | Some row \<Rightarrow> (d', Inr row))))))"

text \<open>
  \<^verbatim>\<open>get_ticket\<close>. A \<^verbatim>\<open>ticket_id\<close> beyond 64 bits cannot be bound and raises
  OverflowError at the SELECT. SQLite holds no rowid beyond 64 bits, so this is the case
  of an id that is not stored, and the model tests it there.
\<close>

definition get_ticket :: "db \<Rightarrow> int \<Rightarrow> exn + ticket" where
  "get_ticket d ticket_id =
     (case select_by_id d ticket_id of
        None \<Rightarrow>
          if int64 ticket_id then Inl (HTTPException 404 ''Ticket not found'')
          else Inl OverflowError
      | Some row \<Rightarrow> Inr row)"

record TicketUpdate =
  tu_status :: "string option"
  tu_priority :: "string option"
  tu_category :: "string option"
  tu_summary :: "string option"
  tu_suggested_reply :: "string option"
  model_fields_set :: "string set"

definition status_values :: "string list" where
  "status_values = [''new'', ''open'', ''pending'', ''resolved'', ''closed'']"

definition priority_values :: "string list" where
  "priority_values = [''low'', ''medium'', ''high'']"

definition category_values :: "string list" where
  "category_values = [''billing'', ''technical'', ''account'', ''other'']"

definition TicketUpdate_fields :: "string list" where
  "TicketUpdate_fields = [''status'', ''priority'', ''category'', ''summary'', ''suggested_reply'']"

text \<open>
  One field of \<^verbatim>\<open>TicketUpdate\<close>, of type \<^verbatim>\<open>Literal[...] | None\<close> (\<open>Some\<close> of the
  allowed values) or \<^verbatim>\<open>str | None\<close> (\<open>None\<close>), against the value of its key in the
  request body (\<open>None\<close> when the body has no such key). A missing key takes the
  default \<^verbatim>\<open>None\<close>; a number, a boolean, a list or an object is not a string.
\<close>

definition validate_field :: "string list option \<Rightarrow> json option \<Rightarrow> exn + string option" where
  "validate_field allowed raw =
     (case raw of
        None \<Rightarrow> Inr None
      | Some JNull \<Rightarrow> Inr None
      | Some (JStr s) \<Rightarrow>
          (case allowed of
             None \<Rightarrow> Inr (Some s)
           | Some vs \<Rightarrow> if s \<in> set vs then Inr (Some s) else Inl RequestValidationError)
      | Some _ \<Rightarrow> Inl RequestValidationError)"

text \<open>
  Validation of the body of a PATCH request. The body must be an object; keys other than
  the five fields are ignored; \<^verbatim>\<open>model_fields_set\<close> is the set of the fields whose
  key is in the body, whatever its value.
\<close>

definition validate_TicketUpdate :: "json \<Rightarrow> exn + TicketUpdate" where
  "validate_TicketUpdate b =
     (case b of
        JObj kvs \<Rightarrow>
          (case validate_field (Some status_values) (map_of kvs ''status'') of
             Inl x \<Rightarrow> Inl x | Inr st \<Rightarrow>
          (case validate_field (Some priority_values) (map_of kvs ''priority'') of
             Inl x \<Rightarrow> Inl x | Inr p \<Rightarrow>
          (case validate_field (Some category_values) (map_of kvs ''category'') of
             Inl x \<Rightarrow> Inl x | Inr c \<Rightarrow>
          (case validate_field None (map_of kvs ''summary'') of
             Inl x \<Rightarrow> Inl x | Inr s \<Rightarrow>
          (case validate_field None (map_of kvs ''suggested_reply'') of
             Inl x \<Rightarrow> Inl x | Inr sr \<Rightarrow>
             Inr \<lparr>tu_status = st, tu_priority = p, tu_category = c, tu_summary = s,
                  tu_suggested_reply = sr,
                  model_fields_set =
                    set (filter (\<lambda>k. map_of kvs k \<noteq> None) TicketUpdate_fields)\<rparr>)))))
      | _ \<Rightarrow> Inl RequestValidationError)"

text \<open>
  Validation of the body of a POST request against \<^verbatim>\<open>TicketCreate\<close>. A required
  string field (\<^verbatim>\<open>Field(...)\<close>) must be present and a string, of at least
  \<^verbatim>\<open>min_length\<close> characters. \<^verbatim>\<open>EmailStr\<close> belongs to the validation library: it
  rejects a string that is not an address and returns an accepted address in
  normalised form. That function is the parameter \<open>validate_email\<close>, \<open>None\<close> for a
  rejected string.
\<close>

definition required_str :: "nat \<Rightarrow> json option \<Rightarrow> exn + string" where
  "required_str min_length raw =
     (case raw of
        Some (JStr s) \<Rightarrow> if min_length \<le> length s then Inr s else Inl RequestValidationError
      | _ \<Rightarrow> Inl RequestValidationError)"

definition optional_email :: "(string \<Rightarrow> string option) \<Rightarrow> json option \<Rightarrow> exn + string option" where
  "optional_email validate_email raw =
     (case raw of
        None \<Rightarrow> Inr None
      | Some JNull \<Rightarrow> Inr None
      | Some (JStr s) \<Rightarrow>
          (case validate_email s of
             None \<Rightarrow> Inl RequestValidationError
           | Some normalized \<Rightarrow> Inr (Some normalized))
      | Some _ \<Rightarrow> Inl RequestValidationError)"

definition validate_TicketCreate :: "(string \<Rightarrow> string option) \<Rightarrow> json \<Rightarrow> exn + TicketCreate" where
  "validate_TicketCreate validate_email b =
     (case b of
        JObj kvs \<Rightarrow>
          (case required_str 0 (map_of kvs ''source'') of
             Inl x \<Rightarrow> Inl x | Inr src \<Rightarrow>
          (case validate_field None (map_of kvs ''customer_name'') of
             Inl x \<Rightarrow> Inl x | Inr name \<Rightarrow>
          (case optional_email validate_email (map_of kvs ''customer_email'') of
             Inl x \<Rightarrow> Inl x | Inr email \<Rightarrow>
          (case required_str 1 (map_of kvs ''subject'') of
             Inl x \<Rightarrow> Inl x | Inr subj \<Rightarrow>
          (case required_str 1 (map_of kvs ''body'') of
             Inl x \<Rightarrow> Inl x | Inr bdy \<Rightarrow>
             Inr \<lparr>tc_source = src, tc_customer_name = name, tc_customer_email = email,
                  tc_subject = subj, tc_body = bdy\<rparr>)))))
      | _ \<Rightarrow> Inl RequestValidationError)"

text \<open>\<^verbatim>\<open>patch.model_dump(exclude_unset=True)\<close>: the set fields, in declaration order.\<close>

definition model_dump_exclude_unset :: "TicketUpdate \<Rightarrow> (string \<times> string option) list" where
  "model_dump_exclude_unset p =
     filter (\<lambda>kv. fst kv \<in> model_fields_set p)
       [(''status'', tu_status p), (''priority'', tu_priority p),
        (''category'', tu_category p), (''summary'', tu_summary p),
        (''suggested_reply'', tu_suggested_reply p)]"

section \<open>Updating and listing tickets (app/main.py)\<close>

text \<open>
  One assignment \<^verbatim>\<open>key = ?\<close> of the UPDATE on one row. The column \<^verbatim>\<open>status\<close> is
  declared NOT NULL; the other four are nullable.
\<close>

definition set_column :: "string \<Rightarrow> string option \<Rightarrow> ticket \<Rightarrow> exn + ticket" where
  "set_column k v r =
     (if k = ''status'' then
        (case v of
           None \<Rightarrow> Inl (IntegrityError ''NOT NULL constraint failed: tickets.status'')
         | Some s \<Rightarrow> Inr (r\<lparr>status := s\<rparr>))
      else if k = ''priority'' then Inr (r\<lparr>priority := v\<rparr>)
      else if k = ''category'' then Inr (r\<lparr>category := v\<rparr>)
      else if k = ''summary'' then Inr (r\<lparr>summary := v\<rparr>)
      else if k = ''suggested_reply'' then Inr (r\<lparr>suggested_reply := v\<rparr>)
      else Inl (OperationalError (''no such column: '' @ k)))"

fun apply_updates :: "(string \<times> string option) list \<Rightarrow> ticket \<Rightarrow> exn + ticket" where
  "apply_updates [] r = Inr r"
| "apply_updates (kv # kvs) r =
     (case set_column (fst kv) (snd kv) r of
        Inl x \<Rightarrow> Inl x
      | Inr r' \<Rightarrow> apply_updates kvs r')"

text \<open>
  \<^verbatim>\<open>UPDATE tickets SET ... WHERE id = ?\<close> over the table: the new rows with the
  number of rows changed (\<^verbatim>\<open>cur.rowcount\<close>), or the constraint error.
\<close>

fun update_rows ::
  "(string \<times> string option) list \<Rightarrow> int \<Rightarrow> ticket list \<Rightarrow> exn + (ticket list \<times> nat)" where
  "update_rows data i [] = Inr ([], 0)"
| "update_rows data i (r # rs) =
     (if id_col r = i then
        (case apply_updates data r of
           Inl x \<Rightarrow> Inl x
         | Inr r' \<Rightarrow>
             (case update_rows data i rs of
                Inl x \<Rightarrow> Inl x
              | Inr res \<Rightarrow> Inr (r' # fst res, Suc (snd res))))
      else
        (case update_rows data i rs of
           Inl x \<Rightarrow> Inl x
         | Inr res \<Rightarrow> Inr (r # fst res, snd res)))"

text \<open>
  The trigger \<^verbatim>\<open>tickets_updated_at\<close>, fired after the update of a row with the given
  id: \<^verbatim>\<open>UPDATE tickets SET updated_at = datetime('now') WHERE id = OLD.id\<close>.
\<close>

definition tickets_updated_at :: "nat \<Rightarrow> int \<Rightarrow> ticket list \<Rightarrow> ticket list" where
  "tickets_updated_at now i rs = map (\<lambda>r. if id_col r = i then r\<lparr>updated_at := now\<rparr> else r) rs"

text \<open>
  \<^verbatim>\<open>update_ticket\<close>: \<open>now\<close> is the clock at the UPDATE, which its trigger reads as
  well. The empty patch is refused before a connection is opened. The constraint error
  and the 404 are raised inside the \<^verbatim>\<open>with\<close> block, which rolls back. As in
  \<^verbatim>\<open>get_ticket\<close>, a \<^verbatim>\<open>ticket_id\<close> beyond 64 bits, which no row has, raises
  OverflowError at the UPDATE.
\<close>

definition update_ticket :: "nat \<Rightarrow> db \<Rightarrow> int \<Rightarrow> TicketUpdate \<Rightarrow> db \<times> (exn + ticket)" where
  "update_ticket now d ticket_id patch =
     (let data = model_dump_exclude_unset patch
      in if data = [] then (d, Inl (HTTPException 400 ''No fields provided to update''))
         else
           (case update_rows data ticket_id (rows d) of
              Inl x \<Rightarrow> (d, Inl x)
            | Inr res \<Rightarrow>
                if snd res = 0 then
                  (if int64 ticket_id then (d, Inl (HTTPException 404 ''Ticket not found''))
                   else (d, Inl OverflowError))
                else
                  (let d' = d\<lparr>rows := tickets_updated_at now ticket_id (fst res)\<rparr>
                   in case select_by_id d' ticket_id of
                        None \<Rightarrow> (d', Inl TypeError)
                      | Some row \<Rightarrow> (d', Inr row))))"

text \<open>\<^verbatim>\<open>PATCH /tickets/{ticket_id}\<close>: the body is validated, then the handler runs.\<close>

definition patch_tickets :: "nat \<Rightarrow> db \<Rightarrow> int \<Rightarrow> json \<Rightarrow> db \<times> (exn + ticket)" where
  "patch_tickets now d ticket_id b =
     (case validate_TicketUpdate b of
        Inl x \<Rightarrow> (d, Inl x)
      | Inr patch \<Rightarrow> update_ticket now d ticket_id patch)"

text \<open>\<^verbatim>\<open>POST /tickets\<close>: the body is validated, then the handler runs.\<close>

definition post_tickets ::
  "(string \<Rightarrow> string option) \<Rightarrow> env \<Rightarrow> nat \<Rightarrow> db \<Rightarrow> json \<Rightarrow> db \<times> (exn + ticket)" where
  "post_tickets validate_email e now d b =
     (case validate_TicketCreate validate_email b of
        Inl x \<Rightarrow> (d, Inl x)
      | Inr ticket \<Rightarrow> create_ticket e now d ticket)"

text \<open>
  \<^verbatim>\<open>ORDER BY created_at DESC\<close>. SQL leaves the order of rows with equal keys open;
  the model keeps them in rowid order.
\<close>

definition order_by_created_at_desc :: "ticket list \<Rightarrow> ticket list" where
  "order_by_created_at_desc rs = sort_key (\<lambda>r. - int (created_at r)) rs"

text \<open>
  The SELECT of \<^verbatim>\<open>list_tickets\<close> on bound parameters. \<^verbatim>\<open>if status:\<close> is false
  for \<^verbatim>\<open>None\<close> and for the empty string, and then the query has no WHERE clause. In
  SQLite a negative LIMIT is no limit and a negative OFFSET is zero.
\<close>

definition select_tickets :: "db \<Rightarrow> string option \<Rightarrow> int \<Rightarrow> int \<Rightarrow> ticket list" where
  "select_tickets d status_q limit offset =
     (let selected =
            (case status_q of
               None \<Rightarrow> rows d
             | Some s \<Rightarrow> if s = [] then rows d else filter (\<lambda>r. status r = s) (rows d));
          skipped = drop (nat offset) (order_by_created_at_desc selected)
      in if limit < 0 then skipped else take (nat limit) skipped)"

text \<open>
  \<^verbatim>\<open>list_tickets\<close>: \<^verbatim>\<open>limit\<close> and \<^verbatim>\<open>offset\<close> are bound as parameters of the
  SELECT, which raises OverflowError for an integer beyond 64 bits.
\<close>

definition list_tickets :: "db \<Rightarrow> string option \<Rightarrow> int \<Rightarrow> int \<Rightarrow> exn + ticket list" where
  "list_tickets d status_q limit offset =
     (if int64 limit \<and> int64 offset then Inr (select_tickets d status_q limit offset)
      else Inl OverflowError)"

text \<open>
  An integer query parameter \<^verbatim>\<open>Query(default, ge=..., le=...)\<close>: the default when the
  parameter is not in the request, 422 when it is outside its bounds.
\<close>

definition Query :: "int \<Rightarrow> int \<Rightarrow> int option \<Rightarrow> int option \<Rightarrow> exn + int" where
  "Query dflt ge le raw =
     (case raw of
        None \<Rightarrow> Inr dflt
      | Some v \<Rightarrow>
          if ge \<le> v \<and> (case le of None \<Rightarrow> True | Some u \<Rightarrow> v \<le> u) then Inr v
          else Inl RequestValidationError)"

text \<open>
  \<^verbatim>\<open>GET /tickets?status=&limit=&offset=\<close>. The offset has a lower bound only, so
  the route hands any integer from 0 on to the handler.
\<close>

definition get_tickets ::
  "db \<Rightarrow> string option \<Rightarrow> int option \<Rightarrow> int option \<Rightarrow> exn + ticket list" where
  "get_tickets d status_q limit_q offset_q =
     (case Query 20 1 (Some 100) limit_q of
        Inl x \<Rightarrow> Inl x
      | Inr limit \<Rightarrow>
          (case Query 0 0 None offset_q of
             Inl x \<Rightarrow> Inl x
           | Inr offset \<Rightarrow> list_tickets d status_q limit offset))"

section \<open>Sample requests and providers\<close>

definition sample_ticket :: TicketCreate where
  "sample_ticket =
     \<lparr>tc_source = ''web'', tc_customer_name = Some ''Ada'',
      tc_customer_email = Some ''ada@example.com'', tc_subject = ''Refund'',
      tc_body = ''Charged twice''\<rparr>"

text \<open>
  The body that validates to \<open>sample_ticket\<close>, the same body with the address written
  with an upper-case domain, and what the address validation does on these addresses:
  the domain comes back in lower case, and a string without \<^verbatim>\<open>@\<close> is rejected.
\<close>

definition sample_body :: json where
  "sample_body =
     JObj [(''source'', JStr ''web''), (''customer_name'', JStr ''Ada''),
           (''customer_email'', JStr ''ada@example.com''), (''subject'', JStr ''Refund''),
           (''body'', JStr ''Charged twice'')]"

definition upper_case_body :: json where
  "upper_case_body =
     JObj [(''source'', JStr ''web''), (''customer_name'', JStr ''Ada''),
           (''customer_email'', JStr ''Ada@EXAMPLE.COM''), (''subject'', JStr ''Refund''),
           (''body'', JStr ''Charged twice'')]"

definition sample_validate_email :: "string \<Rightarrow> string option" where
  "sample_validate_email s =
     (if s = ''ada@example.com'' then Some ''ada@example.com''
      else if s = ''Ada@example.com'' \<or> s = ''Ada@EXAMPLE.COM'' then Some ''Ada@example.com''
      else None)"

text \<open>A provider that cannot be reached, with and without a configured credential.\<close>

definition env_down :: env where
  "env_down =
     \<lparr>api_key = Some ''sk-test'',
      chat_completions_create = (\<lambda>_. Inl (ProviderError ''connection refused'')),
      json_loads = (\<lambda>_. Inl JSONDecodeError)\<rparr>"

definition env_no_key :: env where
  "env_no_key = env_down\<lparr>api_key := None\<rparr>"

text \<open>A provider that answers the strict request as the schema asks.\<close>

definition good_content :: string where
  "good_content =
     ''{\"priority\": \"high\", \"category\": \"billing\", \"summary\": \"Charged twice\", \"suggested_reply\": \"We are sorry\"}''"

definition good_json :: json where
  "good_json =
     JObj [(''priority'', JStr ''high''), (''category'', JStr ''billing''),
           (''summary'', JStr ''Charged twice''), (''suggested_reply'', JStr ''We are sorry'')]"

definition env_ok :: env where
  "env_ok =
     \<lparr>api_key = Some ''sk-test'',
      chat_completions_create = (\<lambda>_. Inr [Some good_content]),
      json_loads = (\<lambda>s. if s = good_content then Inr good_json else Inl JSONDecodeError)\<rparr>"

text \<open>
  A provider whose strict request times out and whose answer in JSON mode is a valid
  JSON object with a nested object under \<^verbatim>\<open>suggested_reply\<close>.
\<close>

definition nested_content :: string where
  "nested_content =
     ''{\"priority\": \"high\", \"category\": \"billing\", \"summary\": \"Charged twice\", \"suggested_reply\": {\"text\": \"We are sorry\"}}''"

definition nested_json :: json where
  "nested_json =
     JObj [(''priority'', JStr ''high''), (''category'', JStr ''billing''),
           (''summary'', JStr ''Charged twice''),
           (''suggested_reply'', JObj [(''text'', JStr ''We are sorry'')])]"

definition env_nested :: env where
  "env_nested =
     \<lparr>api_key = Some ''sk-test'',
      chat_completions_create =
        (\<lambda>req. case response_format req of
                  Json_schema _ \<Rightarrow> Inl (ProviderError ''timeout'')
                | Json_object \<Rightarrow> Inr [Some nested_content]),
      json_loads = (\<lambda>s. if s = nested_content then Inr nested_json else Inl JSONDecodeError)\<rparr>"

text \<open>
  A provider whose strict answer is not JSON and whose second answer has no content.
\<close>

definition env_garbled :: env where
  "env_garbled =
     \<lparr>api_key = Some ''sk-test'',
      chat_completions_create =
        (\<lambda>req. case response_format req of
                  Json_schema _ \<Rightarrow> Inr [Some ''Sure! Here is the analysis:'']
                | Json_object \<Rightarrow> Inr [None]),
      json_loads = (\<lambda>_. Inl JSONDecodeError)\<rparr>"

text \<open>The store after one ticket was created at second 100 with the provider down.\<close>

definition ticket_one :: ticket where
  "ticket_one =
     \<lparr>id_col = 1, source = ''web'', customer_name = Some ''Ada'',
      customer_email = Some ''ada@example.com'', subject = ''Refund'',
      body = ''Charged twice'', status = ''new'', priority = None, category = None,
      summary = None, suggested_reply = None, created_at = 100, updated_at = 100\<rparr>"

definition db_one :: db where
  "db_one = \<lparr>rows = [ticket_one], sqlite_sequence = 1\<rparr>"


text \<open>
  The store after a second ticket was created at second 160 and then opened at second
  170.
\<close>

definition ticket_two :: ticket where
  "ticket_two =
     \<lparr>id_col = 2, source = ''email'', customer_name = None, customer_email = None,
      subject = ''Login'', body = ''Cannot sign in'', status = ''open'',
      priority = Some ''medium'', category = Some ''account'', summary = None,
      suggested_reply = None, created_at = 160, updated_at = 170\<rparr>"

definition db_two :: db where
  "db_two = \<lparr>rows = [ticket_one, ticket_two], sqlite_sequence = 2\<rparr>"

section \<open>Fresh row identifiers\<close>

lemma fold_max_lower: "(a::int) \<le> fold max xs a"
proof (induction xs arbitrary: a)
  case Nil
  show ?case by simp
next
  case (Cons x xs)
  have "a \<le> max x a" by simp
  also have "max x a \<le> fold max xs (max x a)" by (rule Cons.IH)
  finally show ?case by simp
qed

lemma fold_max_upper: "x \<in> set xs \<Longrightarrow> (x::int) \<le> fold max xs a"
proof (induction xs arbitrary: a)
  case Nil
  then show ?case by simp
next
  case (Cons y ys)
  show ?case
  proof (cases "x = y")
    case True
    have "x \<le> max y a" using True by simp
    also have "max y a \<le> fold max ys (max y a)" by (rule fold_max_lower)
    finally show ?thesis by simp
  next
    case False
    with Cons.prems have "x \<in> set ys" by simp
    then show ?thesis using Cons.IH by simp
  qed
qed

lemma next_rowid_above_rows: "r \<in> set (rows d) \<Longrightarrow> id_col r < next_rowid d"
proof -
  assume "r \<in> set (rows d)"
  then have "id_col r \<in> set (map id_col (rows d))" by simp
  then have "id_col r \<le> fold max (map id_col (rows d)) 0" by (rule fold_max_upper)
  then show ?thesis by (simp add: next_rowid_def)
qed

lemma next_rowid_above_sequence: "sqlite_sequence d < next_rowid d"
  by (simp add: next_rowid_def)

lemma find_fresh_snoc:
  assumes "\<And>x. x \<in> set xs \<Longrightarrow> \<not> P x" and "P y"
  shows "find P (xs @ [y]) = Some y"
  using assms by (induction xs) auto

lemma insert_then_select:
  "select_by_id (fst (insert_ticket now d t p c s sr)) (snd (insert_ticket now d t p c s sr))
     = Some (new_row now d t p c s sr)"
proof -
  have "find (\<lambda>r. id_col r = next_rowid d) (rows d @ [new_row now d t p c s sr])
          = Some (new_row now d t p c s sr)"
  proof (rule find_fresh_snoc)
    fix x assume "x \<in> set (rows d)"
    then show "id_col x \<noteq> next_rowid d" using next_rowid_above_rows [of x d] by simp
  next
    show "id_col (new_row now d t p c s sr) = next_rowid d" by (simp add: new_row_def)
  qed
  then show ?thesis by (simp add: insert_ticket_def select_by_id_def)
qed

lemma create_ticket_params:
  assumes "ai_param a ''priority'' = Inr p" "ai_param a ''category'' = Inr c"
    "ai_param a ''summary'' = Inr s" "ai_param a ''suggested_reply'' = Inr sr"
    and "a = (case snd (analyze_ticket e (tc_subject t) (tc_body t)) of Inr a \<Rightarrow> a | Inl _ \<Rightarrow> no_ai_data)"
  shows "create_ticket e now d t =
     (d\<lparr>rows := rows d @ [new_row now d t p c s sr], sqlite_sequence := next_rowid d\<rparr>,
      Inr (new_row now d t p c s sr))"
proof -
  have sel: "select_by_id (fst (insert_ticket now d t p c s sr)) (snd (insert_ticket now d t p c s sr))
     = Some (new_row now d t p c s sr)" by (rule insert_then_select)
  have ins: "fst (insert_ticket now d t p c s sr) = d\<lparr>rows := rows d @ [new_row now d t p c s sr], sqlite_sequence := next_rowid d\<rparr>"
    by (simp add: insert_ticket_def)
  show ?thesis
    using assms(1-4) sel ins unfolding create_ticket_def assms(5)[symmetric] Let_def
    by (simp add: case_prod_beta)
qed

lemma create_ticket_Inr:
  assumes "create_ticket e now d t = (d', Inr r)"
  shows "\<exists>p c s sr. r = new_row now d t p c s sr \<and>
           d' = d\<lparr>rows := rows d @ [r], sqlite_sequence := next_rowid d\<rparr>"
proof -
  define a where "a = (case snd (analyze_ticket e (tc_subject t) (tc_body t)) of Inr a \<Rightarrow> a | Inl _ \<Rightarrow> no_ai_data)"
  from assms obtain p c s sr where
    ok: "ai_param a ''priority'' = Inr p" "ai_param a ''category'' = Inr c"
    "ai_param a ''summary'' = Inr s" "ai_param a ''suggested_reply'' = Inr sr"
    unfolding create_ticket_def a_def[symmetric] Let_def
    by (auto split: sum.splits)
  from create_ticket_params [OF ok a_def, of now d] assms show ?thesis by auto
qed

section \<open>Creation\<close>

lemma no_ai_data_params:
  "ai_param no_ai_data ''priority'' = Inr None"
  "ai_param no_ai_data ''category'' = Inr None"
  "ai_param no_ai_data ''summary'' = Inr None"
  "ai_param no_ai_data ''suggested_reply'' = Inr None"
  by (simp_all add: ai_param_def no_ai_data_def dict_get_def bind_text_def)

lemma create_ticket_without_triage:
  assumes "snd (analyze_ticket e (tc_subject t) (tc_body t)) = Inl x"
  shows "create_ticket e now d t =
     (d\<lparr>rows := rows d @ [new_row now d t None None None None],
        sqlite_sequence := next_rowid d\<rparr>,
      Inr (new_row now d t None None None None))"
  by (rule create_ticket_params [OF no_ai_data_params]) (simp add: assms)

lemma select_new_row:
  "select_by_id (d\<lparr>rows := rows d @ [new_row now d t p c s sr], sqlite_sequence := next_rowid d\<rparr>)
     (next_rowid d) = Some (new_row now d t p c s sr)"
  using insert_then_select [of now d t p c s sr] by (simp add: insert_ticket_def)

lemma analyze_env_down:
  "snd (analyze_ticket env_down s b) = Inl (ProviderError ''connection refused'')"
  by (simp add: analyze_ticket_def completion_json_def env_down_def)

lemma analyze_env_ok: "snd (analyze_ticket env_ok s b) = Inr good_json"
  by (simp add: analyze_ticket_def completion_json_def env_ok_def)

lemma good_json_params:
  "ai_param good_json ''priority'' = Inr (Some ''high'')"
  "ai_param good_json ''category'' = Inr (Some ''billing'')"
  "ai_param good_json ''summary'' = Inr (Some ''Charged twice'')"
  "ai_param good_json ''suggested_reply'' = Inr (Some ''We are sorry'')"
  by (simp_all add: ai_param_def good_json_def dict_get_def bind_text_def)

lemma create_env_ok:
  "create_ticket env_ok now d t =
     (d\<lparr>rows := rows d @ [new_row now d t (Some ''high'') (Some ''billing'')
                              (Some ''Charged twice'') (Some ''We are sorry'')],
        sqlite_sequence := next_rowid d\<rparr>,
      Inr (new_row now d t (Some ''high'') (Some ''billing'') (Some ''Charged twice'')
             (Some ''We are sorry'')))"
  by (rule create_ticket_params [OF good_json_params]) (simp add: analyze_env_ok)



lemma create_ticket_then_get:
  assumes "create_ticket e now d t = (d', Inr r)"
  shows "get_ticket d' (id_col r) = Inr r \<and> source r = tc_source t \<and>
         customer_name r = tc_customer_name t \<and> customer_email r = tc_customer_email t \<and>
         subject r = tc_subject t \<and> body r = tc_body t"
proof -
  from create_ticket_Inr [OF assms] obtain p c s sr where
    r: "r = new_row now d t p c s sr" and
    d': "d' = d\<lparr>rows := rows d @ [r], sqlite_sequence := next_rowid d\<rparr>"
    by blast
  have "select_by_id d' (next_rowid d) = Some r"
    unfolding d' r by (rule select_new_row)
  then have "get_ticket d' (id_col r) = Inr r"
    by (simp add: get_ticket_def r new_row_def)
  then show ?thesis by (simp add: r new_row_def)
qed

lemma required_str_Inr: "required_str n raw = Inr v \<Longrightarrow> raw = Some (JStr v)"
  by (auto simp: required_str_def split: option.splits json.splits if_splits)

lemma validate_field_free:
  "validate_field None raw = Inr v \<Longrightarrow> v = (case raw of Some (JStr n) \<Rightarrow> Some n | _ \<Rightarrow> None)"
  by (auto simp: validate_field_def split: option.splits json.splits)

lemma optional_email_Inr:
  "optional_email validate_email raw = Inr v \<Longrightarrow>
     v = (case raw of Some (JStr a) \<Rightarrow> validate_email a | _ \<Rightarrow> None)"
  by (auto simp: optional_email_def split: option.splits json.splits)

lemma validate_TicketCreate_Inr:
  assumes "validate_TicketCreate validate_email (JObj kvs) = Inr t"
  shows "map_of kvs ''source'' = Some (JStr (tc_source t))"
    and "map_of kvs ''subject'' = Some (JStr (tc_subject t))"
    and "map_of kvs ''body'' = Some (JStr (tc_body t))"
    and "tc_customer_name t =
           (case map_of kvs ''customer_name'' of Some (JStr n) \<Rightarrow> Some n | _ \<Rightarrow> None)"
    and "tc_customer_email t =
           (case map_of kvs ''customer_email'' of Some (JStr a) \<Rightarrow> validate_email a | _ \<Rightarrow> None)"
  using assms
  by (auto simp: validate_TicketCreate_def split: sum.splits
      dest: required_str_Inr validate_field_free optional_email_Inr)

lemma validate_sample_body:
  "validate_TicketCreate sample_validate_email sample_body = Inr sample_ticket"
  by (simp add: validate_TicketCreate_def sample_body_def required_str_def validate_field_def
      optional_email_def sample_validate_email_def sample_ticket_def)

text \<open>
  Claim C8, as amended. After every successful POST of a ticket, a fetch of the returned
  id from the resulting store returns the very record that the creation returned. In
  that record source, customer name, subject and body are the strings of the request
  body, unchanged, and the customer e-mail is the address that the e-mail validation
  returns for the string of the request body: the same string when the address is
  already in normalised form, its normalised form otherwise.
\<close>

theorem post_then_get_roundtrip:
  assumes "post_tickets validate_email e now d (JObj kvs) = (d', Inr r)"
  shows "get_ticket d' (id_col r) = Inr r \<and>
         map_of kvs ''source'' = Some (JStr (source r)) \<and>
         map_of kvs ''subject'' = Some (JStr (subject r)) \<and>
         map_of kvs ''body'' = Some (JStr (body r)) \<and>
         customer_name r =
           (case map_of kvs ''customer_name'' of Some (JStr n) \<Rightarrow> Some n | _ \<Rightarrow> None) \<and>
         customer_email r =
           (case map_of kvs ''customer_email'' of Some (JStr a) \<Rightarrow> validate_email a | _ \<Rightarrow> None)"
proof -
  from assms obtain t where
    v: "validate_TicketCreate validate_email (JObj kvs) = Inr t" and
    c: "create_ticket e now d t = (d', Inr r)"
    by (auto simp: post_tickets_def split: sum.splits)
  note f = validate_TicketCreate_Inr [OF v]
  from create_ticket_then_get [OF c] f show ?thesis by simp
qed

text \<open>A second ticket, posted with a normalised address to a provider that answers.\<close>

theorem post_then_get_roundtrip_witness:
  "\<exists>d' r. post_tickets sample_validate_email env_ok 100 db_one sample_body = (d', Inr r) \<and>
     get_ticket d' (id_col r) = Inr r \<and> source r = ''web'' \<and>
     customer_name r = Some ''Ada'' \<and> customer_email r = Some ''ada@example.com'' \<and>
     subject r = ''Refund'' \<and> body r = ''Charged twice''"
proof -
  obtain d' r where
    run: "post_tickets sample_validate_email env_ok 100 db_one (JObj
       [(''source'', JStr ''web''), (''customer_name'', JStr ''Ada''),
        (''customer_email'', JStr ''ada@example.com''), (''subject'', JStr ''Refund''),
        (''body'', JStr ''Charged twice'')]) = (d', Inr r)"
    using create_env_ok [of 100 db_one sample_ticket] validate_sample_body
    by (simp add: post_tickets_def sample_body_def)
  from post_then_get_roundtrip [OF run] run show ?thesis
    by (auto simp: sample_body_def sample_validate_email_def)
qed

text \<open>
  Claim C8 as stated fails: the address is accepted with an upper-case domain and comes
  back, from the creation and from the fetch alike, with the domain in lower case.
\<close>

theorem upper_case_email_counterexample:
  "post_tickets sample_validate_email env_down 100 empty_db upper_case_body
     = (db_one\<lparr>rows := [ticket_one\<lparr>customer_email := Some ''Ada@example.com''\<rparr>]\<rparr>,
        Inr (ticket_one\<lparr>customer_email := Some ''Ada@example.com''\<rparr>)) \<and>
   get_ticket (db_one\<lparr>rows := [ticket_one\<lparr>customer_email := Some ''Ada@example.com''\<rparr>]\<rparr>) 1
     = Inr (ticket_one\<lparr>customer_email := Some ''Ada@example.com''\<rparr>) \<and>
   customer_email (ticket_one\<lparr>customer_email := Some ''Ada@example.com''\<rparr>)
     \<noteq> Some ''Ada@EXAMPLE.COM''"
proof -
  let ?t = "\<lparr>tc_source = ''web'', tc_customer_name = Some ''Ada'',
      tc_customer_email = Some ''Ada@example.com'', tc_subject = ''Refund'',
      tc_body = ''Charged twice''\<rparr>"
  have v: "validate_TicketCreate sample_validate_email upper_case_body = Inr ?t"
    by (simp add: validate_TicketCreate_def upper_case_body_def required_str_def
        validate_field_def optional_email_def sample_validate_email_def)
  have c: "create_ticket env_down 100 empty_db ?t
     = (db_one\<lparr>rows := [ticket_one\<lparr>customer_email := Some ''Ada@example.com''\<rparr>]\<rparr>,
        Inr (ticket_one\<lparr>customer_email := Some ''Ada@example.com''\<rparr>))"
    unfolding create_ticket_without_triage [OF analyze_env_down]
    by (simp add: new_row_def next_rowid_def empty_db_def db_one_def ticket_one_def)
  have g: "get_ticket (db_one\<lparr>rows := [ticket_one\<lparr>customer_email := Some ''Ada@example.com''\<rparr>]\<rparr>) 1
     = Inr (ticket_one\<lparr>customer_email := Some ''Ada@example.com''\<rparr>)"
    by (simp add: get_ticket_def select_by_id_def ticket_one_def)
  from v c g show ?thesis by (simp add: post_tickets_def)
qed

lemma create_ticket_new_record:
  assumes "create_ticket e now d t = (d', Inr r)"
  shows "status r = ''new'' \<and> created_at r = now \<and> updated_at r = now \<and>
         sqlite_sequence d < id_col r \<and> id_col r \<notin> id_col ` set (rows d) \<and>
         rows d' = rows d @ [r] \<and> sqlite_sequence d' = id_col r"
proof -
  from create_ticket_Inr [OF assms] obtain p c s sr where
    r: "r = new_row now d t p c s sr" and
    d': "d' = d\<lparr>rows := rows d @ [r], sqlite_sequence := next_rowid d\<rparr>"
    by blast
  have "id_col r \<notin> id_col ` set (rows d)"
  proof
    assume "id_col r \<in> id_col ` set (rows d)"
    then obtain r' where "r' \<in> set (rows d)" "id_col r' = id_col r" by auto
    with next_rowid_above_rows [of r' d] show False by (simp add: r new_row_def)
  qed
  with next_rowid_above_sequence [of d] show ?thesis
    by (simp add: r d' new_row_def)
qed

lemma create_env_down:
  "create_ticket env_down 100 empty_db sample_ticket = (db_one, Inr ticket_one)"
  by (simp add: create_ticket_def analyze_ticket_def completion_json_def env_down_def
      sample_ticket_def ai_param_def dict_get_def
      bind_text_def no_ai_data_def insert_ticket_def new_row_def next_rowid_def empty_db_def
      select_by_id_def db_one_def ticket_one_def)

text \<open>
  Claim C3, at an input where the code departs from it. The request body is valid; the
  strict request times out and the fallback answer is a JSON object whose
  \<^verbatim>\<open>suggested_reply\<close> is itself an object. \<^verbatim>\<open>analyze_ticket\<close> returns that dict without
  raising, the nested dict cannot be bound as a parameter of the INSERT, and the handler
  ends with the database library's exception: no ticket is stored. (Lemma
  \<open>create_ticket_new_record\<close> gives the default status, the equal timestamps and the
  fresh id for every creation that does return.)
\<close>

theorem create_ticket_nested_reply_fails:
  "validate_TicketCreate sample_validate_email sample_body = Inr sample_ticket \<and>
   chat_completions_create env_nested (strict_request ''Refund'' ''Charged twice'')
     = Inl (ProviderError ''timeout'') \<and>
   chat_completions_create env_nested (fallback_request ''Refund'' ''Charged twice'')
     = Inr [Some nested_content] \<and>
   json_loads env_nested nested_content = Inr nested_json \<and>
   snd (analyze_ticket env_nested ''Refund'' ''Charged twice'') = Inr nested_json \<and>
   create_ticket env_nested 100 empty_db sample_ticket = (empty_db, Inl ProgrammingError) \<and>
   post_tickets sample_validate_email env_nested 100 empty_db sample_body
     = (empty_db, Inl ProgrammingError)"
proof -
  have v: "validate_TicketCreate sample_validate_email sample_body = Inr sample_ticket"
    by (rule validate_sample_body)
  have s: "chat_completions_create env_nested (strict_request ''Refund'' ''Charged twice'')
     = Inl (ProviderError ''timeout'')"
    by (simp add: env_nested_def strict_request_def)
  have f: "chat_completions_create env_nested (fallback_request ''Refund'' ''Charged twice'')
     = Inr [Some nested_content]"
    by (simp add: env_nested_def fallback_request_def)
  have j: "json_loads env_nested nested_content = Inr nested_json"
    by (simp add: env_nested_def)
  have k: "api_key env_nested = Some ''sk-test''" by (simp add: env_nested_def)
  have a: "snd (analyze_ticket env_nested ''Refund'' ''Charged twice'') = Inr nested_json"
    by (simp add: analyze_ticket_def completion_json_def k s f j)
  have g: "ai_param nested_json ''priority'' = Inr (Some ''high'')"
    "ai_param nested_json ''category'' = Inr (Some ''billing'')"
    "ai_param nested_json ''summary'' = Inr (Some ''Charged twice'')"
    "ai_param nested_json ''suggested_reply'' = Inl ProgrammingError"
    by (simp_all add: ai_param_def dict_get_def bind_text_def nested_json_def)
  have c: "create_ticket env_nested 100 empty_db sample_ticket = (empty_db, Inl ProgrammingError)"
    using a g by (simp add: create_ticket_def sample_ticket_def)
  then have "post_tickets sample_validate_email env_nested 100 empty_db sample_body
     = (empty_db, Inl ProgrammingError)"
    by (simp add: post_tickets_def v)
  with v s f j a c show ?thesis by simp
qed

section \<open>The triage protocol\<close>

lemma analyze_ticket_no_key:
  assumes "api_key e = None \<or> api_key e = Some []"
  shows "analyze_ticket e s b = ([], Inl (RuntimeError missing_key_message))"
  using assms by (auto simp: analyze_ticket_def)

lemma analyze_ticket_both_fail:
  assumes "api_key e = Some k" "k \<noteq> []"
    and "snd (completion_json e [] (strict_request s b)) = Inl x"
    and "snd (completion_json e [strict_request s b] (fallback_request s b)) = Inl y"
  shows "analyze_ticket e s b = ([strict_request s b, fallback_request s b], Inl y)"
  using assms by (simp add: analyze_ticket_def completion_json_def)

text \<open>
  Claim C2, as amended. Without a credential (unset or empty) \<^verbatim>\<open>analyze_ticket\<close>
  raises a RuntimeError that names the missing variable, before any request is sent.
  \<^verbatim>\<open>create_ticket\<close> handles this error exactly as any other triage failure: its
  response and the resulting store are those of a creation whose triage failed for any
  other reason, so the outcome of creation does not tell the two apart.
\<close>

theorem missing_key_handled_as_triage_failure:
  assumes "api_key e = None \<or> api_key e = Some []"
    and "snd (analyze_ticket e' (tc_subject t) (tc_body t)) = Inl x"
  shows "analyze_ticket e (tc_subject t) (tc_body t) = ([], Inl (RuntimeError missing_key_message)) \<and>
         create_ticket e now d t = create_ticket e' now d t"
proof -
  have a: "analyze_ticket e (tc_subject t) (tc_body t) = ([], Inl (RuntimeError missing_key_message))"
    using assms(1) by (rule analyze_ticket_no_key)
  then have "snd (analyze_ticket e (tc_subject t) (tc_body t)) = Inl (RuntimeError missing_key_message)"
    by simp
  then have "create_ticket e now d t = create_ticket e' now d t"
    using assms(2) by (simp add: create_ticket_without_triage)
  with a show ?thesis by simp
qed

text \<open>A missing credential against a provider that answers badly twice.\<close>

theorem missing_key_handled_as_triage_failure_witness:
  "(api_key env_no_key = None \<or> api_key env_no_key = Some []) \<and>
   snd (analyze_ticket env_garbled (tc_subject sample_ticket) (tc_body sample_ticket)) = Inl TypeError \<and>
   analyze_ticket env_no_key (tc_subject sample_ticket) (tc_body sample_ticket)
     = ([], Inl (RuntimeError missing_key_message)) \<and>
   create_ticket env_no_key 7 db_one sample_ticket = create_ticket env_garbled 7 db_one sample_ticket"
proof -
  have k: "api_key env_no_key = None \<or> api_key env_no_key = Some []"
    by (simp add: env_no_key_def)
  have f: "snd (analyze_ticket env_garbled (tc_subject sample_ticket) (tc_body sample_ticket)) = Inl TypeError"
    by (simp add: analyze_ticket_def completion_json_def env_garbled_def strict_request_def
        fallback_request_def)
  from k f missing_key_handled_as_triage_failure [OF k f, of 7 db_one] show ?thesis by simp
qed

text \<open>
  Claim C2 as stated fails: with no credential and with a credential but an unreachable
  provider, creation of the same ticket gives the same response and the same store.
\<close>

theorem missing_key_not_distinct_counterexample:
  "api_key env_no_key = None \<and> api_key env_down = Some ''sk-test'' \<and>
   snd (analyze_ticket env_down ''Refund'' ''Charged twice'') = Inl (ProviderError ''connection refused'') \<and>
   create_ticket env_no_key 100 empty_db sample_ticket = (db_one, Inr ticket_one) \<and>
   create_ticket env_down 100 empty_db sample_ticket = (db_one, Inr ticket_one)"
proof -
  have "create_ticket env_no_key 100 empty_db sample_ticket = (db_one, Inr ticket_one)"
    by (simp add: create_ticket_def analyze_ticket_def env_no_key_def env_down_def
      sample_ticket_def ai_param_def dict_get_def
      bind_text_def no_ai_data_def insert_ticket_def new_row_def next_rowid_def empty_db_def
      select_by_id_def db_one_def ticket_one_def)
  then show ?thesis
    by (simp add: create_env_down analyze_env_down) (simp add: env_no_key_def env_down_def)
qed



section \<open>Partial update\<close>

lemma apply_updates_null_status:
  assumes "''status'' \<in> model_fields_set p" "tu_status p = None"
  shows "apply_updates (model_dump_exclude_unset p) r
           = Inl (IntegrityError ''NOT NULL constraint failed: tickets.status'')"
  using assms by (simp add: model_dump_exclude_unset_def set_column_def)

lemma apply_updates_ok:
  assumes "''status'' \<in> model_fields_set p \<longrightarrow> tu_status p \<noteq> None"
  shows "\<exists>r'. apply_updates (model_dump_exclude_unset p) r = Inr r'"
  using assms by (auto simp: model_dump_exclude_unset_def set_column_def)

lemma apply_updates_fields:
  assumes "apply_updates (model_dump_exclude_unset p) r = Inr r'"
  shows "id_col r' = id_col r" "source r' = source r" "customer_name r' = customer_name r"
    "customer_email r' = customer_email r" "subject r' = subject r" "body r' = body r"
    "created_at r' = created_at r" "updated_at r' = updated_at r"
    "status r' = (if ''status'' \<in> model_fields_set p then the (tu_status p) else status r)"
    "priority r' = (if ''priority'' \<in> model_fields_set p then tu_priority p else priority r)"
    "category r' = (if ''category'' \<in> model_fields_set p then tu_category p else category r)"
    "summary r' = (if ''summary'' \<in> model_fields_set p then tu_summary p else summary r)"
    "suggested_reply r' = (if ''suggested_reply'' \<in> model_fields_set p then tu_suggested_reply p
                           else suggested_reply r)"
  using assms
  by (auto simp: model_dump_exclude_unset_def set_column_def split: if_splits option.splits)

lemma update_rows_fail:
  assumes "\<And>r. apply_updates data r = Inl x" and "\<exists>r\<in>set rs. id_col r = i"
  shows "update_rows data i rs = Inl x"
  using assms(2)
proof (induction rs)
  case Nil
  then show ?case by simp
next
  case (Cons r rs)
  show ?case
  proof (cases "id_col r = i")
    case True
    then show ?thesis by (simp add: assms(1))
  next
    case False
    with Cons.prems have "\<exists>r\<in>set rs. id_col r = i" by simp
    then have "update_rows data i rs = Inl x" by (rule Cons.IH)
    with False show ?thesis by simp
  qed
qed

lemma update_rows_ok:
  assumes "\<And>r. r \<in> set rs \<Longrightarrow> id_col r = i \<Longrightarrow> apply_updates data r = Inr (f r)"
  shows "update_rows data i rs =
           Inr (map (\<lambda>r. if id_col r = i then f r else r) rs,
                length (filter (\<lambda>r. id_col r = i) rs))"
  using assms by (induction rs) simp_all

lemma find_map_same:
  assumes "\<And>x. P (g x) = P x"
  shows "find P (map g xs) = map_option g (find P xs)"
  using assms by (induction xs) simp_all

lemma select_by_id_member:
  assumes "select_by_id d i = Some r"
  shows "r \<in> set (rows d)" and "id_col r = i"
  using assms by (auto simp: select_by_id_def find_Some_iff)


lemma filter_map_frame:
  assumes "\<And>x. Q (g x) = Q x" and "\<And>x. Q x \<Longrightarrow> g x = x"
  shows "filter Q (map g xs) = filter Q xs"
  using assms by (induction xs) simp_all

lemma model_dump_nonempty:
  assumes "k \<in> model_fields_set p" "k \<in> set TicketUpdate_fields"
  shows "model_dump_exclude_unset p \<noteq> []"
  using assms by (auto simp: model_dump_exclude_unset_def TicketUpdate_fields_def)

lemma update_ticket_null_status:
  assumes "select_by_id d i = Some r" "''status'' \<in> model_fields_set p" "tu_status p = None"
  shows "update_ticket now d i p =
           (d, Inl (IntegrityError ''NOT NULL constraint failed: tickets.status''))"
proof -
  have ne: "model_dump_exclude_unset p \<noteq> []"
    using assms(2) by (rule model_dump_nonempty) (simp add: TicketUpdate_fields_def)
  have "\<exists>r\<in>set (rows d). id_col r = i"
    using select_by_id_member [OF assms(1)] by blast
  then have "update_rows (model_dump_exclude_unset p) i (rows d)
               = Inl (IntegrityError ''NOT NULL constraint failed: tickets.status'')"
    by (rule update_rows_fail [rotated]) (rule apply_updates_null_status [OF assms(2,3)])
  with ne show ?thesis by (simp add: update_ticket_def)
qed

lemma update_ticket_ok:
  assumes "select_by_id d i = Some r" and "model_dump_exclude_unset p \<noteq> []"
    and "''status'' \<in> model_fields_set p \<longrightarrow> tu_status p \<noteq> None"
  shows "\<exists>r0 d'. apply_updates (model_dump_exclude_unset p) r = Inr r0 \<and>
           update_ticket now d i p = (d', Inr (r0\<lparr>updated_at := now\<rparr>)) \<and>
           select_by_id d' i = Some (r0\<lparr>updated_at := now\<rparr>) \<and>
           sqlite_sequence d' = sqlite_sequence d \<and>
           map id_col (rows d') = map id_col (rows d) \<and>
           [x \<leftarrow> rows d'. id_col x \<noteq> i] = [x \<leftarrow> rows d. id_col x \<noteq> i]"
proof -
  let ?data = "model_dump_exclude_unset p"
  let ?f = "\<lambda>x. projr (apply_updates ?data x)"
  let ?g = "\<lambda>x. if id_col x = i then (?f x)\<lparr>updated_at := now\<rparr> else x"
  let ?d = "d\<lparr>rows := map ?g (rows d)\<rparr>"
  have ok: "apply_updates ?data x = Inr (?f x)" for x
    using apply_updates_ok [OF assms(3), of x] by auto
  have same_id: "id_col (?f x) = id_col x" for x
    using apply_updates_fields(1) [OF ok] .
  have ur: "update_rows ?data i (rows d) =
              Inr (map (\<lambda>r. if id_col r = i then ?f r else r) (rows d),
                   length (filter (\<lambda>r. id_col r = i) (rows d)))"
    by (rule update_rows_ok) (rule ok)
  have "r \<in> set (filter (\<lambda>r. id_col r = i) (rows d))"
    using select_by_id_member [OF assms(1)] by simp
  then have cnt: "length (filter (\<lambda>r. id_col r = i) (rows d)) \<noteq> 0"
    by (metis length_0_conv empty_iff list.set(1))
  have trig: "tickets_updated_at now i (map (\<lambda>r. if id_col r = i then ?f r else r) (rows d))
                = map ?g (rows d)"
    by (simp add: tickets_updated_at_def same_id)
  have "find (\<lambda>x. id_col x = i) (map ?g (rows d)) = map_option ?g (find (\<lambda>x. id_col x = i) (rows d))"
    by (rule find_map_same) (simp add: same_id)
  then have sel: "select_by_id ?d i = Some ((?f r)\<lparr>updated_at := now\<rparr>)"
    using assms(1) select_by_id_member(2) [OF assms(1)] by (simp add: select_by_id_def)
  have run: "update_ticket now d i p = (?d, Inr ((?f r)\<lparr>updated_at := now\<rparr>))"
    using assms(2) cnt sel by (simp add: update_ticket_def ur trig Let_def)
  have ids: "map id_col (rows ?d) = map id_col (rows d)"
    by (simp add: same_id cong: map_cong)
  have others: "[x \<leftarrow> rows ?d. id_col x \<noteq> i] = [x \<leftarrow> rows d. id_col x \<noteq> i]"
    using filter_map_frame [of "\<lambda>x. id_col x \<noteq> i" ?g "rows d"] by (simp add: same_id)
  from ok [of r] run sel ids others show ?thesis by auto
qed

lemma validate_field_null: "validate_field allowed (Some JNull) = Inr None"
  by (simp add: validate_field_def)

lemma validate_field_absent: "validate_field allowed None = Inr None"
  by (simp add: validate_field_def)

lemma validate_field_outside:
  "v \<noteq> JNull \<Longrightarrow> v \<notin> JStr ` set vs \<Longrightarrow>
     validate_field (Some vs) (Some v) = Inl RequestValidationError"
  by (auto simp: validate_field_def split: json.splits)

lemma validate_field_Inl: "validate_field allowed raw = Inl x \<Longrightarrow> x = RequestValidationError"
  by (auto simp: validate_field_def split: option.splits json.splits if_splits)

lemma validate_field_Inr_None:
  "validate_field allowed raw = Inr None \<Longrightarrow> raw = None \<or> raw = Some JNull"
  by (auto simp: validate_field_def split: option.splits json.splits if_splits)

lemma validate_TicketUpdate_Inl:
  "validate_TicketUpdate b = Inl x \<Longrightarrow> x = RequestValidationError"
  by (auto simp: validate_TicketUpdate_def split: json.splits sum.splits
      dest: validate_field_Inl)

lemma validate_TicketUpdate_Inr:
  assumes "validate_TicketUpdate (JObj kvs) = Inr p"
  shows "model_fields_set p = {k \<in> set TicketUpdate_fields. map_of kvs k \<noteq> None}"
    and "validate_field (Some status_values) (map_of kvs ''status'') = Inr (tu_status p)"
    and "validate_field (Some priority_values) (map_of kvs ''priority'') = Inr (tu_priority p)"
    and "validate_field (Some category_values) (map_of kvs ''category'') = Inr (tu_category p)"
    and "validate_field None (map_of kvs ''summary'') = Inr (tu_summary p)"
    and "validate_field None (map_of kvs ''suggested_reply'') = Inr (tu_suggested_reply p)"
  using assms by (auto simp: validate_TicketUpdate_def split: sum.splits)

lemma validate_TicketUpdate_bad_enum:
  assumes "validate_field (Some status_values) (map_of kvs ''status'') = Inl x
         \<or> validate_field (Some priority_values) (map_of kvs ''priority'') = Inl x
         \<or> validate_field (Some category_values) (map_of kvs ''category'') = Inl x"
  shows "validate_TicketUpdate (JObj kvs) = Inl RequestValidationError"
proof (cases "validate_TicketUpdate (JObj kvs)")
  case (Inl y)
  then show ?thesis using validate_TicketUpdate_Inl by blast
next
  case (Inr p)
  from validate_TicketUpdate_Inr(2-4) [OF Inr] assms show ?thesis by auto
qed

lemma validate_TicketUpdate_no_fields:
  assumes "\<forall>k\<in>set TicketUpdate_fields. map_of kvs k = None"
  shows "\<exists>p. validate_TicketUpdate (JObj kvs) = Inr p \<and> model_dump_exclude_unset p = []"
  using assms
  by (simp add: validate_TicketUpdate_def TicketUpdate_fields_def validate_field_def
      model_dump_exclude_unset_def)


lemma validate_single_null:
  assumes "k \<in> set TicketUpdate_fields"
  shows "\<exists>p. validate_TicketUpdate (JObj [(k, JNull)]) = Inr p \<and> model_fields_set p = {k} \<and>
           model_dump_exclude_unset p = [(k, None)]"
  using assms
  by (auto simp: validate_TicketUpdate_def TicketUpdate_fields_def validate_field_def
      model_dump_exclude_unset_def)

text \<open>
  Claim C5, as amended. A PATCH body with none of the five fields is answered 400, and a
  body in which status, priority or category has a value that is neither null nor one of
  its allowed strings is answered 422. Both answers are given for every store, every
  ticket id and every time, and the store comes back as it was: the request is rejected
  without reading or writing the table. An explicit null is not rejected by the
  validation.
\<close>

theorem invalid_patch_rejected:
  "((\<forall>k\<in>set TicketUpdate_fields. map_of kvs k = None) \<longrightarrow>
      (\<forall>now d i. patch_tickets now d i (JObj kvs)
         = (d, Inl (HTTPException 400 ''No fields provided to update'')))) \<and>
   ((\<exists>v. map_of kvs ''status'' = Some v \<and> v \<noteq> JNull \<and> v \<notin> JStr ` set status_values) \<or>
    (\<exists>v. map_of kvs ''priority'' = Some v \<and> v \<noteq> JNull \<and> v \<notin> JStr ` set priority_values) \<or>
    (\<exists>v. map_of kvs ''category'' = Some v \<and> v \<noteq> JNull \<and> v \<notin> JStr ` set category_values) \<longrightarrow>
      (\<forall>now d i. patch_tickets now d i (JObj kvs) = (d, Inl RequestValidationError)))"
proof (intro conjI impI allI)
  fix now d i
  assume "\<forall>k\<in>set TicketUpdate_fields. map_of kvs k = None"
  then obtain p where "validate_TicketUpdate (JObj kvs) = Inr p" "model_dump_exclude_unset p = []"
    using validate_TicketUpdate_no_fields by blast
  then show "patch_tickets now d i (JObj kvs)
         = (d, Inl (HTTPException 400 ''No fields provided to update''))"
    by (simp add: patch_tickets_def update_ticket_def)
next
  fix now d i
  assume "(\<exists>v. map_of kvs ''status'' = Some v \<and> v \<noteq> JNull \<and> v \<notin> JStr ` set status_values) \<or>
    (\<exists>v. map_of kvs ''priority'' = Some v \<and> v \<noteq> JNull \<and> v \<notin> JStr ` set priority_values) \<or>
    (\<exists>v. map_of kvs ''category'' = Some v \<and> v \<noteq> JNull \<and> v \<notin> JStr ` set category_values)"
  then have "validate_field (Some status_values) (map_of kvs ''status'') = Inl RequestValidationError
         \<or> validate_field (Some priority_values) (map_of kvs ''priority'') = Inl RequestValidationError
         \<or> validate_field (Some category_values) (map_of kvs ''category'') = Inl RequestValidationError"
    using validate_field_outside by auto
  then have "validate_TicketUpdate (JObj kvs) = Inl RequestValidationError"
    by (rule validate_TicketUpdate_bad_enum)
  then show "patch_tickets now d i (JObj kvs) = (d, Inl RequestValidationError)"
    by (simp add: patch_tickets_def)
qed

text \<open>The empty body and \<^verbatim>\<open>{"priority": "urgent"}\<close> against a store with one ticket.\<close>

theorem invalid_patch_rejected_witness:
  "patch_tickets 160 db_one 1 (JObj [])
     = (db_one, Inl (HTTPException 400 ''No fields provided to update'')) \<and>
   patch_tickets 160 db_one 1 (JObj [(''priority'', JStr ''urgent'')])
     = (db_one, Inl RequestValidationError)"
proof -
  have e: "\<forall>k\<in>set TicketUpdate_fields. map_of [] k = (None :: json option)" by simp
  have m: "map_of [(''priority'', JStr ''urgent'')] ''priority'' = Some (JStr ''urgent'')" by simp
  have u: "JStr ''urgent'' \<notin> JStr ` set priority_values" by (simp add: priority_values_def image_iff)
  from m u have b: "(\<exists>v. map_of [(''priority'', JStr ''urgent'')] ''status'' = Some v \<and> v \<noteq> JNull \<and> v \<notin> JStr ` set status_values) \<or>
    (\<exists>v. map_of [(''priority'', JStr ''urgent'')] ''priority'' = Some v \<and> v \<noteq> JNull \<and> v \<notin> JStr ` set priority_values) \<or>
    (\<exists>v. map_of [(''priority'', JStr ''urgent'')] ''category'' = Some v \<and> v \<noteq> JNull \<and> v \<notin> JStr ` set category_values)"
    by blast
  from invalid_patch_rejected [of "[]"] e
  have 1: "patch_tickets 160 db_one 1 (JObj []) = (db_one, Inl (HTTPException 400 ''No fields provided to update''))"
    by blast
  from invalid_patch_rejected [of "[(''priority'', JStr ''urgent'')]"] b
  have 2: "patch_tickets 160 db_one 1 (JObj [(''priority'', JStr ''urgent'')]) = (db_one, Inl RequestValidationError)"
    by blast
  from 1 2 show ?thesis by blast
qed

text \<open>
  Claim C5 as stated fails: null is not one of the allowed values of status, yet the body
  \<^verbatim>\<open>{"status": null}\<close> for an existing ticket passes the validation and reaches the
  UPDATE, which ends with the constraint error of the database, not with a client error.
\<close>

theorem null_status_not_rejected_counterexample:
  "JNull \<notin> JStr ` set status_values \<and>
   validate_TicketUpdate (JObj [(''status'', JNull)])
     = Inr \<lparr>tu_status = None, tu_priority = None, tu_category = None, tu_summary = None,
            tu_suggested_reply = None, model_fields_set = {''status''}\<rparr> \<and>
   patch_tickets 160 db_one 1 (JObj [(''status'', JNull)])
     = (db_one, Inl (IntegrityError ''NOT NULL constraint failed: tickets.status''))"
proof -
  have v: "validate_TicketUpdate (JObj [(''status'', JNull)])
     = Inr \<lparr>tu_status = None, tu_priority = None, tu_category = None, tu_summary = None,
            tu_suggested_reply = None, model_fields_set = {''status''}\<rparr>"
    by (simp add: validate_TicketUpdate_def validate_field_def TicketUpdate_fields_def)
  have s: "select_by_id db_one 1 = Some ticket_one"
    by (simp add: select_by_id_def db_one_def ticket_one_def)
  have "update_ticket 160 db_one 1
          \<lparr>tu_status = None, tu_priority = None, tu_category = None, tu_summary = None,
            tu_suggested_reply = None, model_fields_set = {''status''}\<rparr>
     = (db_one, Inl (IntegrityError ''NOT NULL constraint failed: tickets.status''))"
    by (rule update_ticket_null_status [OF s]) simp_all
  with v show ?thesis by (auto simp: patch_tickets_def)
qed




text \<open>
  Claim C9. Take an existing ticket and a PATCH body that passes validation. If the body
  has \<^verbatim>\<open>status\<close> with value null, the update fails with the NOT NULL constraint
  error of the database (not with 400 or 422) and the store is unchanged. Otherwise, if
  priority, category, summary or suggested_reply is null in the body, the update succeeds
  and each such field is NULL in the returned and stored row. A body with a single field
  set to null passes validation, and the dump of its set fields is that one pair, so it
  is not an empty patch.
\<close>

theorem explicit_null_applied:
  assumes "select_by_id d i = Some r" and "validate_TicketUpdate (JObj kvs) = Inr p"
  shows "(map_of kvs ''status'' = Some JNull \<longrightarrow>
            patch_tickets now d i (JObj kvs)
              = (d, Inl (IntegrityError ''NOT NULL constraint failed: tickets.status''))) \<and>
         (map_of kvs ''status'' \<noteq> Some JNull \<and>
          (map_of kvs ''priority'' = Some JNull \<or> map_of kvs ''category'' = Some JNull \<or>
           map_of kvs ''summary'' = Some JNull \<or> map_of kvs ''suggested_reply'' = Some JNull) \<longrightarrow>
            (\<exists>d' r'. patch_tickets now d i (JObj kvs) = (d', Inr r') \<and>
               select_by_id d' i = Some r' \<and>
               (map_of kvs ''priority'' = Some JNull \<longrightarrow> priority r' = None) \<and>
               (map_of kvs ''category'' = Some JNull \<longrightarrow> category r' = None) \<and>
               (map_of kvs ''summary'' = Some JNull \<longrightarrow> summary r' = None) \<and>
               (map_of kvs ''suggested_reply'' = Some JNull \<longrightarrow> suggested_reply r' = None))) \<and>
         (k \<in> set TicketUpdate_fields \<longrightarrow>
            (\<exists>q. validate_TicketUpdate (JObj [(k, JNull)]) = Inr q \<and>
               model_dump_exclude_unset q = [(k, None)]))"
proof (intro conjI impI)
  note v = validate_TicketUpdate_Inr [OF assms(2)]
  assume n: "map_of kvs ''status'' = Some JNull"
  have "''status'' \<in> model_fields_set p"
    using n by (simp add: v(1) TicketUpdate_fields_def)
  moreover have "tu_status p = None"
    using v(2) n by (simp add: validate_field_null)
  ultimately have "update_ticket now d i p
     = (d, Inl (IntegrityError ''NOT NULL constraint failed: tickets.status''))"
    by (rule update_ticket_null_status [OF assms(1)])
  then show "patch_tickets now d i (JObj kvs)
              = (d, Inl (IntegrityError ''NOT NULL constraint failed: tickets.status''))"
    by (simp add: patch_tickets_def assms(2))
next
  note v = validate_TicketUpdate_Inr [OF assms(2)]
  assume h: "map_of kvs ''status'' \<noteq> Some JNull \<and>
          (map_of kvs ''priority'' = Some JNull \<or> map_of kvs ''category'' = Some JNull \<or>
           map_of kvs ''summary'' = Some JNull \<or> map_of kvs ''suggested_reply'' = Some JNull)"
  then obtain k where k: "k \<in> set TicketUpdate_fields" "map_of kvs k = Some JNull"
    by (auto simp: TicketUpdate_fields_def)
  then have "k \<in> model_fields_set p" by (simp add: v(1))
  then have ne: "model_dump_exclude_unset p \<noteq> []" using k(1) by (rule model_dump_nonempty)
  have st: "''status'' \<in> model_fields_set p \<longrightarrow> tu_status p \<noteq> None"
  proof
    assume "''status'' \<in> model_fields_set p"
    then have "map_of kvs ''status'' \<noteq> None" by (simp add: v(1))
    with h validate_field_Inr_None [of "Some status_values" "map_of kvs ''status''"] v(2)
    show "tu_status p \<noteq> None" by auto
  qed
  from update_ticket_ok [OF assms(1) ne st, of now] obtain r0 d' where
    ap: "apply_updates (model_dump_exclude_unset p) r = Inr r0" and
    run: "update_ticket now d i p = (d', Inr (r0\<lparr>updated_at := now\<rparr>))" and
    sel: "select_by_id d' i = Some (r0\<lparr>updated_at := now\<rparr>)"
    by blast
  note f = apply_updates_fields [OF ap]
  have p1: "priority r0 = None" if "map_of kvs ''priority'' = Some JNull"
    using that f(10) v(3) by (simp add: v(1) TicketUpdate_fields_def validate_field_null)
  have p2: "category r0 = None" if "map_of kvs ''category'' = Some JNull"
    using that f(11) v(4) by (simp add: v(1) TicketUpdate_fields_def validate_field_null)
  have p3: "summary r0 = None" if "map_of kvs ''summary'' = Some JNull"
    using that f(12) v(5) by (simp add: v(1) TicketUpdate_fields_def validate_field_null)
  have p4: "suggested_reply r0 = None" if "map_of kvs ''suggested_reply'' = Some JNull"
    using that f(13) v(6) by (simp add: v(1) TicketUpdate_fields_def validate_field_null)
  show "\<exists>d' r'. patch_tickets now d i (JObj kvs) = (d', Inr r') \<and>
               select_by_id d' i = Some r' \<and>
               (map_of kvs ''priority'' = Some JNull \<longrightarrow> priority r' = None) \<and>
               (map_of kvs ''category'' = Some JNull \<longrightarrow> category r' = None) \<and>
               (map_of kvs ''summary'' = Some JNull \<longrightarrow> summary r' = None) \<and>
               (map_of kvs ''suggested_reply'' = Some JNull \<longrightarrow> suggested_reply r' = None)"
    apply (rule exI [of _ d'], rule exI [of _ "r0\<lparr>updated_at := now\<rparr>"])
    using run sel p1 p2 p3 p4 by (simp add: patch_tickets_def assms(2))
next
  assume "k \<in> set TicketUpdate_fields"
  then show "\<exists>q. validate_TicketUpdate (JObj [(k, JNull)]) = Inr q \<and>
               model_dump_exclude_unset q = [(k, None)]"
    using validate_single_null by blast
qed

text \<open>Null for status and null for summary against a ticket that has a summary.\<close>

theorem explicit_null_applied_witness:
  "patch_tickets 160 (db_one\<lparr>rows := [ticket_one\<lparr>summary := Some ''Charged twice''\<rparr>]\<rparr>) 1
       (JObj [(''status'', JNull)])
     = (db_one\<lparr>rows := [ticket_one\<lparr>summary := Some ''Charged twice''\<rparr>]\<rparr>,
        Inl (IntegrityError ''NOT NULL constraint failed: tickets.status'')) \<and>
   (\<exists>d' r'. patch_tickets 160 (db_one\<lparr>rows := [ticket_one\<lparr>summary := Some ''Charged twice''\<rparr>]\<rparr>) 1
               (JObj [(''summary'', JNull)]) = (d', Inr r') \<and>
             select_by_id d' 1 = Some r' \<and> summary r' = None)"
proof -
  let ?d = "db_one\<lparr>rows := [ticket_one\<lparr>summary := Some ''Charged twice''\<rparr>]\<rparr>"
  have a: "select_by_id ?d 1 = Some (ticket_one\<lparr>summary := Some ''Charged twice''\<rparr>)"
    by (simp add: select_by_id_def ticket_one_def)
  obtain p where p: "validate_TicketUpdate (JObj [(''status'', JNull)]) = Inr p"
    using validate_single_null [of "''status''"] by (auto simp: TicketUpdate_fields_def)
  obtain q where q: "validate_TicketUpdate (JObj [(''summary'', JNull)]) = Inr q"
    using validate_single_null [of "''summary''"] by (auto simp: TicketUpdate_fields_def)
  from explicit_null_applied [OF a p, where now = 160]
  have 1: "patch_tickets 160 ?d 1 (JObj [(''status'', JNull)])
     = (?d, Inl (IntegrityError ''NOT NULL constraint failed: tickets.status''))"
    by simp
  from explicit_null_applied [OF a q, where now = 160]
  have 2: "\<exists>d' r'. patch_tickets 160 ?d 1 (JObj [(''summary'', JNull)]) = (d', Inr r') \<and>
             select_by_id d' 1 = Some r' \<and> summary r' = None"
    by simp
  from 1 2 show ?thesis by blast
qed

section \<open>Listing\<close>

lemma order_by_created_at_desc_sorted:
  "sorted_wrt (\<lambda>a b. created_at b \<le> created_at a) (order_by_created_at_desc rs)"
proof -
  have "sorted (map (\<lambda>r. - int (created_at r)) (order_by_created_at_desc rs))"
    unfolding order_by_created_at_desc_def by (rule sorted_sort_key)
  then show ?thesis by (simp add: sorted_map)
qed

lemma order_by_created_at_desc_set: "set (order_by_created_at_desc rs) = set rs"
  by (simp add: order_by_created_at_desc_def)

lemma order_by_created_at_desc_length: "length (order_by_created_at_desc rs) = length rs"
  by (simp add: order_by_created_at_desc_def)

lemma select_tickets_sorted:
  "sorted_wrt (\<lambda>a b. created_at b \<le> created_at a) (select_tickets d q limit offset)"
  by (simp add: select_tickets_def Let_def order_by_created_at_desc_sorted)

lemma select_tickets_subset: "set (select_tickets d q limit offset) \<subseteq> set (rows d)"
proof
  fix r assume "r \<in> set (select_tickets d q limit offset)"
  then obtain xs where "r \<in> set (drop (nat offset) (order_by_created_at_desc xs))"
    and xs: "set xs \<subseteq> set (rows d)"
    by (auto simp: select_tickets_def Let_def split: option.splits if_splits dest: in_set_takeD)
  then have "r \<in> set xs"
    by (auto dest: in_set_dropD simp: order_by_created_at_desc_set)
  with xs show "r \<in> set (rows d)" by blast
qed

lemma select_tickets_filter:
  assumes "s \<noteq> []" and "r \<in> set (select_tickets d (Some s) limit offset)"
  shows "status r = s"
proof -
  let ?xs = "order_by_created_at_desc (filter (\<lambda>r. status r = s) (rows d))"
  have "r \<in> set (drop (nat offset) ?xs)"
    using assms by (auto simp: select_tickets_def Let_def split: if_splits dest: in_set_takeD)
  then have "r \<in> set ?xs" by (rule in_set_dropD)
  then show ?thesis by (simp add: order_by_created_at_desc_set)
qed

lemma select_tickets_length:
  "0 \<le> limit \<Longrightarrow> length (select_tickets d q limit offset) \<le> nat limit"
  by (simp add: select_tickets_def Let_def)

lemma list_tickets_bound:
  "int64 limit \<Longrightarrow> int64 offset \<Longrightarrow>
     list_tickets d q limit offset = Inr (select_tickets d q limit offset)"
  by (simp add: list_tickets_def)

text \<open>
  The route puts no upper bound on the offset: from \<open>2 ^ 63\<close> on it passes the
  validation and the SELECT raises OverflowError.
\<close>

lemma get_tickets_offset_overflow:
  assumes "2 ^ 63 \<le> off"
  shows "get_tickets d q None (Some off) = Inl OverflowError"
  using assms by (simp add: get_tickets_def Query_def list_tickets_def int64_def)

lemma select_db_two_new: "select_tickets db_two (Some ''new'') 10 0 = [ticket_one]"
  by (simp add: select_tickets_def order_by_created_at_desc_def db_two_def ticket_one_def
      ticket_two_def)

lemma select_db_two_all: "select_tickets db_two None 20 0 = [ticket_two, ticket_one]"
  by (simp add: select_tickets_def order_by_created_at_desc_def db_two_def ticket_one_def
      ticket_two_def)

text \<open>
  Claim C7, as amended. With limit in [1,100] (20 when omitted) and offset from 0 up to
  the largest 64-bit integer (0 when omitted) the list request succeeds; the tickets
  returned are rows of the store, in descending order of created_at, at most limit many,
  and when the status parameter is a non-empty string, every one of them has that status.
  A limit outside [1,100] or a negative offset is answered 422.
\<close>

theorem get_tickets_page:
  assumes "lim = (case limit_q of None \<Rightarrow> 20 | Some l \<Rightarrow> l)"
    and "off = (case offset_q of None \<Rightarrow> 0 | Some n \<Rightarrow> n)"
  shows "(1 \<le> lim \<and> lim \<le> 100 \<and> 0 \<le> off \<and> off < 2 ^ 63 \<longrightarrow>
            (\<exists>rs. get_tickets d status_q limit_q offset_q = Inr rs \<and>
               rs = select_tickets d status_q lim off \<and>
               sorted_wrt (\<lambda>a b. created_at b \<le> created_at a) rs \<and>
               (\<forall>s. status_q = Some s \<and> s \<noteq> [] \<longrightarrow> (\<forall>r\<in>set rs. status r = s)) \<and>
               set rs \<subseteq> set (rows d) \<and> length rs \<le> nat lim)) \<and>
         (\<not> (1 \<le> lim \<and> lim \<le> 100 \<and> 0 \<le> off) \<longrightarrow>
            get_tickets d status_q limit_q offset_q = Inl RequestValidationError)"
proof (intro conjI impI)
  assume ok: "1 \<le> lim \<and> lim \<le> 100 \<and> 0 \<le> off \<and> off < 2 ^ 63"
  then have b: "int64 lim" "int64 off" by (simp_all add: int64_def)
  have "get_tickets d status_q limit_q offset_q = list_tickets d status_q lim off"
    using ok assms by (auto simp: get_tickets_def Query_def split: option.splits)
  then have run: "get_tickets d status_q limit_q offset_q = Inr (select_tickets d status_q lim off)"
    using b by (simp add: list_tickets_bound)
  have "\<forall>s. status_q = Some s \<and> s \<noteq> [] \<longrightarrow>
          (\<forall>r\<in>set (select_tickets d status_q lim off). status r = s)"
    using select_tickets_filter by blast
  moreover have "length (select_tickets d status_q lim off) \<le> nat lim"
    using ok by (simp add: select_tickets_length)
  ultimately show "\<exists>rs. get_tickets d status_q limit_q offset_q = Inr rs \<and>
               rs = select_tickets d status_q lim off \<and>
               sorted_wrt (\<lambda>a b. created_at b \<le> created_at a) rs \<and>
               (\<forall>s. status_q = Some s \<and> s \<noteq> [] \<longrightarrow> (\<forall>r\<in>set rs. status r = s)) \<and>
               set rs \<subseteq> set (rows d) \<and> length rs \<le> nat lim"
    using run select_tickets_sorted select_tickets_subset by simp
next
  assume "\<not> (1 \<le> lim \<and> lim \<le> 100 \<and> 0 \<le> off)"
  then show "get_tickets d status_q limit_q offset_q = Inl RequestValidationError"
    using assms by (auto simp: get_tickets_def Query_def split: option.splits)
qed

text \<open>Two tickets: filtered, unfiltered with the defaults, and out-of-range parameters.\<close>

theorem get_tickets_page_witness:
  "get_tickets db_two (Some ''new'') (Some 10) None = Inr [ticket_one] \<and>
   get_tickets db_two None None None = Inr [ticket_two, ticket_one] \<and>
   sorted_wrt (\<lambda>a b. created_at b \<le> created_at a) [ticket_two, ticket_one] \<and>
   get_tickets db_two None (Some 101) None = Inl RequestValidationError \<and>
   get_tickets db_two None None (Some (- 1)) = Inl RequestValidationError"
proof -
  from get_tickets_page [of 10 "Some 10" 0 None db_two "Some ''new''"]
  have 1: "get_tickets db_two (Some ''new'') (Some 10) None = Inr [ticket_one]"
    by (simp add: select_db_two_new)
  from get_tickets_page [of 20 None 0 None db_two None]
  have 2: "get_tickets db_two None None None = Inr [ticket_two, ticket_one]"
    and 3: "sorted_wrt (\<lambda>a b. created_at b \<le> created_at a) [ticket_two, ticket_one]"
    by (simp_all add: select_db_two_all)
  from get_tickets_page [of 101 "Some 101" 0 None db_two None]
  have 4: "get_tickets db_two None (Some 101) None = Inl RequestValidationError"
    by simp
  from get_tickets_page [of 20 None "- 1" "Some (- 1)" db_two None]
  have 5: "get_tickets db_two None None (Some (- 1)) = Inl RequestValidationError"
    by simp
  from 1 2 3 4 5 show ?thesis by blast
qed

text \<open>
  Claim C7 as stated fails: with \<^verbatim>\<open>status=\<close> given as the empty string, the ticket
  returned has the status \<^verbatim>\<open>new\<close>, which is not the value of the filter.
\<close>

theorem empty_status_filter_counterexample:
  "get_tickets db_one (Some []) None None = Inr [ticket_one] \<and> status ticket_one \<noteq> []"
  by (simp add: get_tickets_def Query_def list_tickets_def int64_def select_tickets_def
      order_by_created_at_desc_def db_one_def) (simp add: ticket_one_def)

text \<open>
  Claim C10. A list request whose status parameter is the empty string is the request
  without status parameter: no filter is applied, and when the limit covers the table
  every ticket is returned. Whether a list request is accepted does not depend on the
  status value, which is never checked against the enum.
\<close>

theorem empty_status_is_no_filter:
  "list_tickets d (Some []) limit offset = list_tickets d None limit offset \<and>
   get_tickets d (Some []) limit_q offset_q = get_tickets d None limit_q offset_q \<and>
   (int64 limit \<and> length (rows d) \<le> nat limit \<longrightarrow>
      (\<exists>rs. list_tickets d (Some []) limit 0 = Inr rs \<and> set rs = set (rows d))) \<and>
   isl (get_tickets d (Some s) limit_q offset_q) = isl (get_tickets d None limit_q offset_q)"
proof -
  have a: "list_tickets d (Some []) l n = list_tickets d None l n" for l n
    by (simp add: list_tickets_def select_tickets_def)
  have b: "get_tickets d (Some []) limit_q offset_q = get_tickets d None limit_q offset_q"
    by (auto simp: get_tickets_def a split: sum.splits)
  have c: "\<exists>rs. list_tickets d (Some []) limit 0 = Inr rs \<and> set rs = set (rows d)"
    if "int64 limit \<and> length (rows d) \<le> nat limit"
    using that
    by (simp add: list_tickets_def int64_def select_tickets_def Let_def
        order_by_created_at_desc_set order_by_created_at_desc_length)
  have e: "isl (get_tickets d (Some s) limit_q offset_q) = isl (get_tickets d None limit_q offset_q)"
    by (simp add: get_tickets_def list_tickets_def split: sum.splits)
  from a b c e show ?thesis by blast
qed

text \<open>
  Two tickets, none with an empty status: both are returned for the empty filter, and
  the status \<^verbatim>\<open>archived\<close>, which is not in the enum, is accepted.
\<close>

theorem empty_status_is_no_filter_witness:
  "length (rows db_two) \<le> nat 20 \<and>
   (\<exists>rs. list_tickets db_two (Some []) 20 0 = Inr rs \<and> set rs = {ticket_one, ticket_two}) \<and>
   filter (\<lambda>r. status r = []) (rows db_two) = [] \<and>
   isl (get_tickets db_two (Some ''archived'') None None) = False"
proof -
  have l: "int64 20 \<and> length (rows db_two) \<le> nat 20" by (simp add: db_two_def int64_def)
  have r: "set (rows db_two) = {ticket_one, ticket_two}" by (simp add: db_two_def)
  have f: "filter (\<lambda>r. status r = []) (rows db_two) = []"
    by (simp add: db_two_def ticket_one_def ticket_two_def)
  have g: "isl (get_tickets db_two None None None) = False"
    by (simp add: get_tickets_def Query_def list_tickets_def int64_def)
  from empty_status_is_no_filter [of db_two 20 0 None None "''archived''"] l
  have 1: "\<exists>rs. list_tickets db_two (Some []) 20 0 = Inr rs \<and> set rs = set (rows db_two)"
    and 2: "isl (get_tickets db_two (Some ''archived'') None None)
              = isl (get_tickets db_two None None None)"
    by blast+
  from 1 2 l r f g show ?thesis by simp
qed

end
